theory Spec2Isabelle
  imports Main "HOL-Library.Word"
begin

unbundle bit_operations_syntax

section \<open>Hello Client: the connection multiplexer and relay of \<^verbatim>\<open>hello_client.c\<close>\<close>

text \<open>
  The application is a set of event handlers over one global \<^verbatim>\<open>tAPP_STATE hello_client\<close>,
  the function-static \<^verbatim>\<open>button_pushed_time\<close> and the stack's connection multiplexer.
  Each handler is a function from the state before to the state after. Calls into the
  stack are appended to a log, each under the connection that was selected when the
  call was made.
\<close>

subsection \<open>Constants of the source\<close>

type_synonym u8 = "8 word"
type_synonym u16 = "16 word"
type_synonym u32 = "32 word"

definition NVRAM_ID_HOST_LIST :: u8 where "NVRAM_ID_HOST_LIST = 0x10"
definition CONNECT_ANY :: u8 where "CONNECT_ANY = 0x01"
definition CONNECT_HELLO_SENSOR :: u8 where "CONNECT_HELLO_SENSOR = 0x02"
definition SMP_PAIRING :: u8 where "SMP_PAIRING = 0x04"
definition SMP_ERASE_KEY :: u8 where "SMP_ERASE_KEY = 0x08"
definition HELLO_CLIENT_MAX_PERIPHERALS :: nat where "HELLO_CLIENT_MAX_PERIPHERALS = 4"
definition CENTRAL_ROLE :: u8 where "CENTRAL_ROLE = 0"
definition PERIPHERAL_ROLE :: u8 where "PERIPHERAL_ROLE = 1"
definition HANDLE_HELLO_CLIENT_DATA_VALUE :: u16 where "HANDLE_HELLO_CLIENT_DATA_VALUE = 0x2a"
definition HANDLE_HELLO_CLIENT_CLIENT_CONFIGURATION_DESCRIPTOR :: u16 where
  "HANDLE_HELLO_CLIENT_CLIENT_CONFIGURATION_DESCRIPTOR = 0x2b"

text \<open>
  Modelled from the spec: the macros \<^verbatim>\<open>CCC_NOTIFICATION\<close> and \<^verbatim>\<open>CCC_INDICATION\<close> come from a
  header of the stack that is not among the sources. The spec fixes them: the 2-byte
  configuration value has bit0 = notify and bit1 = indicate.
\<close>

definition CCC_NOTIFICATION :: u16 where "CCC_NOTIFICATION = 0x01"
definition CCC_INDICATION :: u16 where "CCC_INDICATION = 0x02"

text \<open>
  The remaining macros and configuration values the handlers read are declared in headers
  that are not among the sources (\<^verbatim>\<open>hello_sensor.h\<close> and the stack). Neither the sources nor
  the spec give their values, so every handler takes them as a parameter.
\<close>

record sdk_consts =
  UUID_HELLO_SERVICE :: "u8 list"
  HANDLE_HELLO_SENSOR_CLIENT_CONFIGURATION_DESCRIPTOR :: u16
  ADV_SERVICE_UUID128_COMP :: u8
  HCIULP_MAX_DATA_LENGTH :: nat
  encr_required :: u8
  BLEPROFILE_GENERIC_APP_TIMER :: u32
  LESMP_ROLE_INITIATOR :: u8
  LESMP_ROLE_RESPONDERS :: u8
  LESMP_PAIRING_RESULT_BONDED :: u8
  BLEAPP_APP_TIMER_SCAN :: u32
  BLEAPP_APP_TIMER_CONN :: u32

text \<open>
  \<^verbatim>\<open>const UINT8 hello_service[16] = {UUID_HELLO_SERVICE};\<close> An initialiser shorter than
  the array is padded with zeros, so the array always holds 16 bytes.
\<close>

definition hello_service :: "sdk_consts \<Rightarrow> u8 list" where
  "hello_service k = take 16 (UUID_HELLO_SERVICE k @ replicate 16 0)"

subsection \<open>Data\<close>

text \<open>
  \<^verbatim>\<open>EMCONINFO_DEVINFO\<close> and \<^verbatim>\<open>LESMP_INFO\<close> are structures of the stack. The application
  copies them whole and reads or writes one field of each: \<^verbatim>\<open>role\<close> and \<^verbatim>\<open>smpRole\<close>.
\<close>

record emconinfo_devinfo =
  role :: u8
  peer_addr :: "u8 list"

record lesmp_info =
  smpRole :: u8

definition zero_devinfo :: emconinfo_devinfo where
  "zero_devinfo = \<lparr>role = 0, peer_addr = replicate 6 0\<rparr>"

definition zero_smpinfo :: lesmp_info where
  "zero_smpinfo = \<lparr>smpRole = 0\<rparr>"

datatype scan_mode = NO_SCAN | LOW_SCAN | HIGH_SCAN
datatype conn_mode = NO_CONN | LOW_CONN | HIGH_CONN
datatype adv_mode = NO_DISCOVERABLE | HIGH_UNDIRECTED_DISCOVERABLE

text \<open>The calls into the stack that the handlers make, with their arguments.\<close>

datatype sdk_call =
    Disconnect_LocalHost
  | SendWriteReq u16 u16
  | SmpSetPtr nat
  | StartPairing
  | ConnParamUpdateReq nat nat nat nat
  | SetAdvDuringConnEnable bool
  | Discoverable adv_mode
  | RemoveAllBondInfo
  | ClientHandleReset
  | CenConnDown
  | Scan scan_mode
  | Conn conn_mode "u8 list" u8
  | SetPtrConMux u16
  | SendNotification u16 "u8 list"
  | SendIndication u16 "u8 list"
  | SendHandleValueConf
  | WriteNVRAM u8 "u8 list"
  | WdogRestart
  | CenLeAdvReportCb
  | CenAppTimerCb u32
  | CenSmpBondResult u8
  | CenEncryptionChanged u8

text \<open>
  The state: the fields of \<^verbatim>\<open>tAPP_STATE\<close> (with \<^verbatim>\<open>hostinfo\<close> flattened into \<^verbatim>\<open>bdaddr\<close> and
  \<^verbatim>\<open>characteristic_client_configuration\<close>), the static \<^verbatim>\<open>button_pushed_time\<close> of the
  interrupt handler, the connection multiplexer of the stack (one entry per slot, holding
  the connection handle registered there), the handle of the connection that is
  currently selected, and the log of calls.
\<close>

record state =
  app_config :: u8
  app_timer_count :: u32
  app_fine_timer_count :: u32
  handle_to_central :: u8
  num_peripherals :: u8
  data_handle :: u16
  config_handle :: u16
  data_descriptor_handle :: u16
  dev_info :: "emconinfo_devinfo list"
  smp_info :: "lesmp_info list"
  bdaddr :: "u8 list"
  characteristic_client_configuration :: u16
  button_pushed_time :: u32
  conmux :: "u16 option list"
  cur_con :: u16
  out :: "(u16 \<times> sdk_call) list"

text \<open>A call is logged under the connection selected when it is made.\<close>

definition emit :: "sdk_call \<Rightarrow> state \<Rightarrow> state" where
  "emit c s = s\<lparr>out := out s @ [(cur_con s, c)]\<rparr>"

subsection \<open>The connection multiplexer\<close>

text \<open>
  Modelled from the spec: the \<^verbatim>\<open>blecm_*ConMux\<close> functions belong to the stack and are not
  among the sources. The spec's slot table gives their contract: \<^verbatim>\<open>find\<close> is a linear
  scan for the handle, a free index is searched the same way, freeing a slot empties it,
  and adding registers the handle at the index. A negative result of the C functions is
  \<open>None\<close> here. \<^verbatim>\<open>blecm_SetPtrConMux\<close> selects the connection with the given handle: the
  calls that follow go out on it (``Because we will be sending on the different
  connection, change Set Pointer to the central context'').
\<close>

fun find_first :: "('a \<Rightarrow> bool) \<Rightarrow> 'a list \<Rightarrow> nat option" where
  "find_first P [] = None"
| "find_first P (x # xs) = (if P x then Some 0 else map_option Suc (find_first P xs))"

definition blecm_ConMuxInit :: "nat \<Rightarrow> u16 option list" where
  "blecm_ConMuxInit n = replicate n None"

definition blecm_FindConMux :: "u16 option list \<Rightarrow> u16 \<Rightarrow> nat option" where
  "blecm_FindConMux t h = find_first (\<lambda>e. e = Some h) t"

definition blecm_FindFreeConMux :: "u16 option list \<Rightarrow> nat option" where
  "blecm_FindFreeConMux t = find_first (\<lambda>e. e = None) t"

definition blecm_DelConMux :: "nat \<Rightarrow> u16 option list \<Rightarrow> u16 option list" where
  "blecm_DelConMux i t = t[i := None]"

definition blecm_AddConMux :: "nat \<Rightarrow> u16 \<Rightarrow> u16 option list \<Rightarrow> u16 option list" where
  "blecm_AddConMux i h t = t[i := Some h]"

definition blecm_SetPtrConMux :: "u16 \<Rightarrow> state \<Rightarrow> state" where
  "blecm_SetPtrConMux h s = (emit (SetPtrConMux h) s)\<lparr>cur_con := h\<rparr>"

subsection \<open>Start-up\<close>

text \<open>
  \<^verbatim>\<open>hello_client_create\<close>: the state is zeroed, \<^verbatim>\<open>app_config\<close> is set, the multiplexer gets
  \<^verbatim>\<open>HELLO_CLIENT_MAX_PERIPHERALS\<close> slots, scanning is off and advertising on. Of the
  calls that start-up makes, the log keeps these two; the others configure the stack and
  register the handlers below.
\<close>

definition hello_client_create :: "sdk_consts \<Rightarrow> state" where
  "hello_client_create k =
     \<lparr>app_config = 0 OR CONNECT_HELLO_SENSOR OR SMP_PAIRING,
      app_timer_count = 0,
      app_fine_timer_count = 0,
      handle_to_central = 0,
      num_peripherals = 0,
      data_handle = 0,
      config_handle = 0,
      data_descriptor_handle = 0,
      dev_info = replicate HELLO_CLIENT_MAX_PERIPHERALS zero_devinfo,
      smp_info = replicate HELLO_CLIENT_MAX_PERIPHERALS zero_smpinfo,
      bdaddr = replicate 6 0,
      characteristic_client_configuration = 0,
      button_pushed_time = 0,
      conmux = blecm_ConMuxInit HELLO_CLIENT_MAX_PERIPHERALS,
      cur_con = 0,
      out = [(0, Scan NO_SCAN), (0, Discoverable HIGH_UNDIRECTED_DISCOVERABLE)]\<rparr>"

subsection \<open>Connection up and down\<close>

text \<open>
  \<^verbatim>\<open>hello_client_connection_up\<close>. The arguments \<open>dev\<close> and \<open>smp\<close> are what
  \<^verbatim>\<open>emconinfo_getPtr()\<close> and \<^verbatim>\<open>lesmp_getPtr()\<close> point to; \<^verbatim>\<open>emconinfo_getConnHandle()\<close> is the
  handle of the selected connection. The body is written in three parts: the test of the
  role with its two branches (\<open>connection_up_role\<close>), the final test that restarts
  advertising (\<open>connection_up_restart\<close>), and the function itself, which looks the slot
  up and calls the two in the order of the source.
\<close>

definition connection_up_role :: "sdk_consts \<Rightarrow> nat \<Rightarrow> u16 \<Rightarrow> state \<Rightarrow> state" where
  "connection_up_role k cm_index con_handle s =
     (if role (dev_info s ! cm_index) = CENTRAL_ROLE then
        let s1 = s\<lparr>smp_info := (smp_info s)
                     [cm_index := (smp_info s ! cm_index)\<lparr>smpRole := LESMP_ROLE_INITIATOR k\<rparr>]\<rparr>;
            s2 = (if encr_required k = 0
                  then emit (SendWriteReq (HANDLE_HELLO_SENSOR_CLIENT_CONFIGURATION_DESCRIPTOR k) 1) s1
                  else emit StartPairing (emit (SmpSetPtr cm_index) s1))
        in s2\<lparr>num_peripherals := num_peripherals s2 + 1\<rparr>
      else
        let s1 = s\<lparr>smp_info := (smp_info s)
                     [cm_index := (smp_info s ! cm_index)\<lparr>smpRole := LESMP_ROLE_RESPONDERS k\<rparr>]\<rparr>;
            s2 = s1\<lparr>handle_to_central := ucast con_handle\<rparr>
        in emit (ConnParamUpdateReq 100 116 0 500) s2)"

definition connection_up_restart :: "state \<Rightarrow> state" where
  "connection_up_restart s =
     (if unat (num_peripherals s) < HELLO_CLIENT_MAX_PERIPHERALS then
        (if handle_to_central s = 0
         then emit (Discoverable HIGH_UNDIRECTED_DISCOVERABLE) (emit (SetAdvDuringConnEnable True) s)
         else s)
      else s)"

definition hello_client_connection_up ::
  "sdk_consts \<Rightarrow> emconinfo_devinfo \<Rightarrow> lesmp_info \<Rightarrow> state \<Rightarrow> state" where
  "hello_client_connection_up k dev smp s =
     (let con_handle = cur_con s;
          s1 = (case blecm_FindConMux (conmux s) con_handle of
                  Some cm_index \<Rightarrow> s\<lparr>conmux := blecm_DelConMux cm_index (conmux s)\<rparr>
                | None \<Rightarrow> s)
      in case blecm_FindFreeConMux (conmux s1) of
           None \<Rightarrow> emit Disconnect_LocalHost s1
         | Some cm_index \<Rightarrow>
             let s2 = s1\<lparr>dev_info := (dev_info s1)[cm_index := dev]\<rparr>;
                 s3 = s2\<lparr>smp_info := (smp_info s2)[cm_index := smp]\<rparr>;
                 s4 = s3\<lparr>conmux := blecm_AddConMux cm_index con_handle (conmux s3)\<rparr>
             in connection_up_restart (connection_up_role k cm_index con_handle s4))"

text \<open>
  \<^verbatim>\<open>hello_client_connection_down\<close>. The decrement of \<^verbatim>\<open>num_peripherals\<close> stands after the
  test of the role, outside both branches, as in the source; the counter is a \<^verbatim>\<open>UINT8\<close>.
\<close>

definition hello_client_connection_down :: "state \<Rightarrow> state" where
  "hello_client_connection_down s =
     (let con_handle = cur_con s in
      case blecm_FindConMux (conmux s) con_handle of
        None \<Rightarrow> s
      | Some cm_index \<Rightarrow>
          let s1 = (if app_config s AND SMP_ERASE_KEY \<noteq> 0 then emit RemoveAllBondInfo s else s);
              s2 = (if role (dev_info s1 ! cm_index) = PERIPHERAL_ROLE
                    then emit (SetAdvDuringConnEnable True) (s1\<lparr>handle_to_central := 0\<rparr>)
                    else emit CenConnDown (emit ClientHandleReset s1));
              s3 = s2\<lparr>dev_info := (dev_info s2)[cm_index := zero_devinfo]\<rparr>;
              s4 = s3\<lparr>smp_info := (smp_info s3)[cm_index := zero_smpinfo]\<rparr>;
              s5 = s4\<lparr>num_peripherals := num_peripherals s4 - 1\<rparr>;
              s6 = s5\<lparr>conmux := blecm_DelConMux cm_index (conmux s5)\<rparr>
          in if unat (num_peripherals s6) < HELLO_CLIENT_MAX_PERIPHERALS
             then emit (Scan LOW_SCAN) s6 else s6)"

subsection \<open>Timers\<close>

definition hello_client_app_timer :: "sdk_consts \<Rightarrow> u32 \<Rightarrow> state \<Rightarrow> state" where
  "hello_client_app_timer k arg s =
     (let s1 = (if arg = BLEPROFILE_GENERIC_APP_TIMER k
                then s\<lparr>app_timer_count := app_timer_count s + 1\<rparr> else s)
      in emit (CenAppTimerCb arg) s1)"

definition hello_client_app_fine_timer :: "u32 \<Rightarrow> state \<Rightarrow> state" where
  "hello_client_app_fine_timer arg s = s\<lparr>app_fine_timer_count := app_fine_timer_count s + 1\<rparr>"

subsection \<open>Pairing result, encryption change and the timer of the central role\<close>

text \<open>
  These three handlers call the stack and leave the application state alone.
  \<^verbatim>\<open>hello_client_timer_callback\<close> reads \<^verbatim>\<open>blecen_GetConn()\<close>, which is the argument \<open>conn\<close>.
\<close>

definition hello_client_smp_pair_result :: "sdk_consts \<Rightarrow> u8 \<Rightarrow> state \<Rightarrow> state" where
  "hello_client_smp_pair_result k result s =
     (let s1 = emit (CenSmpBondResult result) s in
      if result = LESMP_PAIRING_RESULT_BONDED k
      then emit (SendWriteReq (HANDLE_HELLO_SENSOR_CLIENT_CONFIGURATION_DESCRIPTOR k) 1) s1
      else s1)"

definition hello_client_encryption_changed :: "u8 \<Rightarrow> state \<Rightarrow> state" where
  "hello_client_encryption_changed status s = emit (CenEncryptionChanged status) s"

definition hello_client_timer_callback :: "sdk_consts \<Rightarrow> u32 \<Rightarrow> conn_mode \<Rightarrow> state \<Rightarrow> state" where
  "hello_client_timer_callback k arg conn s =
     (if arg = BLEAPP_APP_TIMER_SCAN k then emit (Scan LOW_SCAN) s
      else if arg = BLEAPP_APP_TIMER_CONN k then
        (if conn = HIGH_CONN \<or> conn = LOW_CONN
         then emit (Discoverable HIGH_UNDIRECTED_DISCOVERABLE)
                (emit (Scan LOW_SCAN) (emit (Conn NO_CONN [] 0) s))
         else s)
      else s)"

subsection \<open>Advertisement reports\<close>

text \<open>
  The fields of \<^verbatim>\<open>HCIULP_ADV_PACKET_REPORT_WDATA\<close> that the handler reads. \<open>adv_data\<close> is the
  content of the buffer \<^verbatim>\<open>evt->data\<close>; \<open>dataLen\<close> says how much of it the report fills.
\<close>

record adv_report =
  dataLen :: u8
  adv_data :: "u8 list"
  rssi :: u8
  wd_addr :: "u8 list"
  addressType :: u8

text \<open>
  The \<^verbatim>\<open>while(1)\<close> loop over the fields, with \<open>ptr\<close> as the offset of \<^verbatim>\<open>ptr\<close> from \<^verbatim>\<open>data\<close>. A field
  is \<^verbatim>\<open>{len, val, data[]}\<close>. The loop tests the field at \<open>ptr\<close> before it compares \<open>ptr\<close> with
  \<open>dataLen\<close>, and the three conditions are read left to right as \<^verbatim>\<open>&&\<close> does. A read
  outside the buffer has no defined result in C: it is \<open>None\<close>.
\<close>

function adv_find :: "sdk_consts \<Rightarrow> u8 list \<Rightarrow> nat \<Rightarrow> nat \<Rightarrow> bool option" where
  "adv_find k buf dlen ptr =
     (if length buf \<le> ptr then None
      else if buf ! ptr = 16 + 1 \<and> length buf \<le> ptr + 1 then None
      else if buf ! ptr = 16 + 1 \<and> buf ! (ptr + 1) = ADV_SERVICE_UUID128_COMP k
              \<and> length buf < ptr + 2 + 16 then None
      else if buf ! ptr = 16 + 1 \<and> buf ! (ptr + 1) = ADV_SERVICE_UUID128_COMP k
              \<and> take 16 (drop (ptr + 2) buf) = hello_service k then Some True
      else if dlen \<le> ptr + (unat (buf ! ptr) + 1) then Some False
      else adv_find k buf dlen (ptr + (unat (buf ! ptr) + 1)))"
  by pat_completeness auto
termination
  by (relation "measure (\<lambda>(k, buf, dlen, ptr). dlen - ptr)") auto

declare adv_find.simps [simp del]

text \<open>
  \<^verbatim>\<open>hello_client_advertisement_report\<close>. \<^verbatim>\<open>HELLO_CLIENT_MIN_RSSI\<close> is not defined in the
  sources, so the signal-strength filter is compiled out.
\<close>

definition hello_client_advertisement_report ::
  "sdk_consts \<Rightarrow> adv_report \<Rightarrow> state \<Rightarrow> state option" where
  "hello_client_advertisement_report k evt s =
     (let s1 = emit WdogRestart s in
      if unat (dataLen evt) > HCIULP_MAX_DATA_LENGTH k then Some s1
      else
        let s2 = emit CenLeAdvReportCb s1 in
        if app_config s2 AND CONNECT_HELLO_SENSOR \<noteq> 0 then
          (case adv_find k (adv_data evt) (unat (dataLen evt)) 0 of
             None \<Rightarrow> None
           | Some True \<Rightarrow>
               Some (emit (Scan NO_SCAN)
                      (emit (Conn HIGH_CONN (wd_addr evt) (addressType evt))
                        (emit (Discoverable NO_DISCOVERABLE) s2)))
           | Some False \<Rightarrow> Some s2)
        else Some s2)"

subsection \<open>Relay of data from a peripheral\<close>

text \<open>
  \<^verbatim>\<open>hello_client_process_data_from_peripheral(len, data)\<close>: \<open>len\<close> is a C \<^verbatim>\<open>int\<close>. The bytes
  handed to the stack are the first \<^verbatim>\<open>len < 20 ? len : 20\<close> of \<open>data\<close>.
\<close>

definition hello_client_process_data_from_peripheral :: "int \<Rightarrow> u8 list \<Rightarrow> state \<Rightarrow> state" where
  "hello_client_process_data_from_peripheral len bytes s =
     (if characteristic_client_configuration s AND CCC_NOTIFICATION \<noteq> 0 then
        emit (SendNotification HANDLE_HELLO_CLIENT_DATA_VALUE
                (take (nat (if len < 20 then len else 20)) bytes))
          (blecm_SetPtrConMux (ucast (handle_to_central s)) s)
      else if characteristic_client_configuration s AND CCC_INDICATION \<noteq> 0 then
        emit (SendIndication HANDLE_HELLO_CLIENT_DATA_VALUE
                (take (nat (if len < 20 then len else 20)) bytes))
          (blecm_SetPtrConMux (ucast (handle_to_central s)) s)
      else s)"

definition hello_client_notification_handler :: "int \<Rightarrow> int \<Rightarrow> u8 list \<Rightarrow> state \<Rightarrow> state" where
  "hello_client_notification_handler len attr_len bytes s =
     hello_client_process_data_from_peripheral len bytes s"

definition hello_client_indication_handler :: "int \<Rightarrow> int \<Rightarrow> u8 list \<Rightarrow> state \<Rightarrow> state" where
  "hello_client_indication_handler len attr_len bytes s =
     emit SendHandleValueConf (hello_client_process_data_from_peripheral len bytes s)"

subsection \<open>Writes from the peer\<close>

text \<open>
  A \<^verbatim>\<open>LEGATTDB_ENTRY_HDR\<close> as the handler sees it through \<^verbatim>\<open>legattdb_getHandle\<close>,
  \<^verbatim>\<open>legattdb_getAttrValueLen\<close> and \<^verbatim>\<open>legattdb_getAttrValue\<close>.
\<close>

record legattdb_entry =
  entry_handle :: u16
  entry_value :: "u8 list"

definition legattdb_getHandle :: "legattdb_entry \<Rightarrow> u16" where
  "legattdb_getHandle p = entry_handle p"

definition legattdb_getAttrValueLen :: "legattdb_entry \<Rightarrow> int" where
  "legattdb_getAttrValueLen p = int (length (entry_value p))"

definition legattdb_getAttrValue :: "legattdb_entry \<Rightarrow> u8 list" where
  "legattdb_getAttrValue p = entry_value p"

text \<open>
  The bytes of \<^verbatim>\<open>hello_client.hostinfo\<close> handed to \<^verbatim>\<open>bleprofile_WriteNVRAM\<close>. \<^verbatim>\<open>HOSTINFO\<close> is
  packed: the 6 bytes of the address, then the 16-bit configuration value, low byte first
  on the little-endian target.
\<close>

definition hostinfo_bytes :: "state \<Rightarrow> u8 list" where
  "hostinfo_bytes s =
     bdaddr s @ [ucast (characteristic_client_configuration s),
                 ucast (drop_bit 8 (characteristic_client_configuration s))]"

text \<open>
  \<^verbatim>\<open>hello_client_write_handler\<close>: the result is the value returned to the stack and the
  state after. The value \<^verbatim>\<open>bleprofile_WriteNVRAM\<close> returns is only traced.
\<close>

definition hello_client_write_handler :: "legattdb_entry \<Rightarrow> state \<Rightarrow> int \<times> state" where
  "hello_client_write_handler p s =
     (let handle = legattdb_getHandle p;
          len = legattdb_getAttrValueLen p;
          attrPtr = legattdb_getAttrValue p
      in if len = 2 \<and> handle = HANDLE_HELLO_CLIENT_CLIENT_CONFIGURATION_DESCRIPTOR then
           let s1 = s\<lparr>characteristic_client_configuration :=
                        ucast (attrPtr ! 0) + push_bit 8 (ucast (attrPtr ! 1))\<rparr>
           in (0, emit (WriteNVRAM NVRAM_ID_HOST_LIST (hostinfo_bytes s1)) s1)
         else if handle = HANDLE_HELLO_CLIENT_DATA_VALUE then (0, s)
         else (0x80, s))"

text \<open>
  Modelled from the spec: the store behind \<^verbatim>\<open>bleprofile_WriteNVRAM\<close> is a collaborator that
  is not among the sources (the application never reads it back). The spec describes it
  as a key-value byte blob store with \<open>persist(key, bytes)\<close> and \<open>load(key)\<close>: a load
  returns the bytes of the latest persist under that key, and nothing on first boot.
\<close>

fun nvram_load :: "(u16 \<times> sdk_call) list \<Rightarrow> u8 \<Rightarrow> u8 list option" where
  "nvram_load [] key = None"
| "nvram_load (c # cs) key =
     (case nvram_load cs key of
        Some v \<Rightarrow> Some v
      | None \<Rightarrow> (case snd c of
                   WriteNVRAM key' v \<Rightarrow> if key' = key then Some v else None
                 | _ \<Rightarrow> None))"

subsection \<open>The button\<close>

text \<open>The 12 bytes of the literal \<^verbatim>\<open>"From Client\n"\<close>.\<close>

definition from_client_buf :: "u8 list" where
  "from_client_buf =
     [0x46, 0x72, 0x6f, 0x6d, 0x20, 0x43, 0x6c, 0x69, 0x65, 0x6e, 0x74, 0x0a]"

text \<open>
  \<^verbatim>\<open>hello_client_interrupt_handler\<close>. The subtraction is that of \<^verbatim>\<open>UINT32\<close>; the stored
  press time is tested against 0 before a release is looked at.
\<close>

definition hello_client_interrupt_handler :: "u32 \<Rightarrow> state \<Rightarrow> u32 \<times> state" where
  "hello_client_interrupt_handler v s =
     (let button_pushed = (v AND 0x01 \<noteq> 0) in
      if button_pushed then
        (0, s\<lparr>button_pushed_time := app_timer_count s\<rparr>)
      else if button_pushed_time s \<noteq> 0 then
        (if app_timer_count s - button_pushed_time s > 5 then
           (0, emit (Scan HIGH_SCAN) (emit (Discoverable NO_DISCOVERABLE) s))
         else if handle_to_central s \<noteq> 0 then
           (0, emit (SendNotification HANDLE_HELLO_CLIENT_DATA_VALUE (take 12 from_client_buf))
                 (blecm_SetPtrConMux (ucast (handle_to_central s)) s))
         else (0, s))
      else (0, s))"

subsection \<open>Events\<close>

text \<open>
  The stack delivers events one at a time. An event that belongs to a connection comes
  with that connection selected, so its handle is what \<^verbatim>\<open>emconinfo_getConnHandle()\<close>
  returns inside the handler. A notification, indication or write carries its payload;
  the handler gets the length of the payload as \<open>len\<close>.
\<close>

datatype event =
    ConnectionUp u16 emconinfo_devinfo lesmp_info
  | ConnectionDown u16
  | AdvertisementReport adv_report
  | Notification u16 u16 "u8 list"
  | Indication u16 u16 "u8 list"
  | WriteReceived u16 legattdb_entry
  | Interrupt u32
  | AppTimer u32
  | AppFineTimer u32
  | SmpPairResult u16 u8
  | EncryptionChanged u16 u8
  | TimerCallback u32 conn_mode

fun step :: "sdk_consts \<Rightarrow> event \<Rightarrow> state \<Rightarrow> state option" where
  "step k (ConnectionUp h dev smp) s = Some (hello_client_connection_up k dev smp (s\<lparr>cur_con := h\<rparr>))"
| "step k (ConnectionDown h) s = Some (hello_client_connection_down (s\<lparr>cur_con := h\<rparr>))"
| "step k (AdvertisementReport evt) s = hello_client_advertisement_report k evt s"
| "step k (Notification h attr bytes) s =
     Some (hello_client_notification_handler (int (length bytes)) (uint attr) bytes (s\<lparr>cur_con := h\<rparr>))"
| "step k (Indication h attr bytes) s =
     Some (hello_client_indication_handler (int (length bytes)) (uint attr) bytes (s\<lparr>cur_con := h\<rparr>))"
| "step k (WriteReceived h p) s = Some (snd (hello_client_write_handler p (s\<lparr>cur_con := h\<rparr>)))"
| "step k (Interrupt v) s = Some (snd (hello_client_interrupt_handler v s))"
| "step k (AppTimer arg) s = Some (hello_client_app_timer k arg s)"
| "step k (AppFineTimer arg) s = Some (hello_client_app_fine_timer arg s)"
| "step k (SmpPairResult h result) s = Some (hello_client_smp_pair_result k result (s\<lparr>cur_con := h\<rparr>))"
| "step k (EncryptionChanged h status) s =
     Some (hello_client_encryption_changed status (s\<lparr>cur_con := h\<rparr>))"
| "step k (TimerCallback arg conn) s = Some (hello_client_timer_callback k arg conn s)"

fun run :: "sdk_consts \<Rightarrow> event list \<Rightarrow> state \<Rightarrow> state option" where
  "run k [] s = Some s"
| "run k (e # es) s = (case step k e s of None \<Rightarrow> None | Some s' \<Rightarrow> run k es s')"

subsection \<open>Notions the properties are stated with\<close>

text \<open>The two tests of the relay on the stored configuration value.\<close>

definition notify_enabled :: "state \<Rightarrow> bool" where
  "notify_enabled s = (characteristic_client_configuration s AND CCC_NOTIFICATION \<noteq> 0)"

definition indicate_enabled :: "state \<Rightarrow> bool" where
  "indicate_enabled s = (characteristic_client_configuration s AND CCC_INDICATION \<noteq> 0)"

text \<open>A write of the two bytes \<open>b0\<close>, \<open>b1\<close> to the client configuration descriptor.\<close>

definition client_configuration_write :: "u8 \<Rightarrow> u8 \<Rightarrow> legattdb_entry" where
  "client_configuration_write b0 b1 =
     \<lparr>entry_handle = HANDLE_HELLO_CLIENT_CLIENT_CONFIGURATION_DESCRIPTOR, entry_value = [b0, b1]\<rparr>"

text \<open>
  Values for the constants that the sources do not define, used where the model is run
  on concrete inputs. The general theorems hold for every value of them.
\<close>

definition sample_consts :: sdk_consts where
  "sample_consts =
     \<lparr>UUID_HELLO_SERVICE = [0x23, 0x20, 0x56, 0x7c, 0x05, 0xcf, 0x6e, 0xb4,
                             0xc3, 0x41, 0x77, 0x28, 0x51, 0x82, 0x7e, 0x1b],
      HANDLE_HELLO_SENSOR_CLIENT_CONFIGURATION_DESCRIPTOR = 0x2b,
      ADV_SERVICE_UUID128_COMP = 0x07,
      HCIULP_MAX_DATA_LENGTH = 31,
      encr_required = 3,
      BLEPROFILE_GENERIC_APP_TIMER = 1,
      LESMP_ROLE_INITIATOR = 0,
      LESMP_ROLE_RESPONDERS = 1,
      LESMP_PAIRING_RESULT_BONDED = 2,
      BLEAPP_APP_TIMER_SCAN = 3,
      BLEAPP_APP_TIMER_CONN = 4\<rparr>"

text \<open>
  The connection data of a link on which this device is the peripheral (the peer is the
  central), and of a link on which this device is the central (the peer is a peripheral).
\<close>

definition dev_as_peripheral :: emconinfo_devinfo where
  "dev_as_peripheral = \<lparr>role = PERIPHERAL_ROLE, peer_addr = [0x01, 0x02, 0x03, 0x04, 0x05, 0x06]\<rparr>"

definition dev_as_central :: emconinfo_devinfo where
  "dev_as_central = \<lparr>role = CENTRAL_ROLE, peer_addr = [0x11, 0x12, 0x13, 0x14, 0x15, 0x16]\<rparr>"

text \<open>
  Sample events: a central connects to this device on handle 0x40 and enables
  notifications; this device connects to a sensor on handle 0x41; the one-second timer
  fires; the button is pressed.
\<close>

definition central_up :: event where
  "central_up = ConnectionUp 0x40 dev_as_peripheral zero_smpinfo"

definition sensor_up :: event where
  "sensor_up = ConnectionUp 0x41 dev_as_central zero_smpinfo"

definition enable_notify :: event where
  "enable_notify = WriteReceived 0x40 (client_configuration_write 0x01 0x00)"

definition tick :: event where
  "tick = AppTimer (BLEPROFILE_GENERIC_APP_TIMER sample_consts)"

definition press :: event where
  "press = Interrupt 0x01"

text \<open>The state the events \<open>evs\<close> lead to from start-up, with the sample constants.\<close>

definition after :: "event list \<Rightarrow> state" where
  "after evs =
     (case run sample_consts evs (hello_client_create sample_consts) of
        Some s \<Rightarrow> s
      | None \<Rightarrow> hello_client_create sample_consts)"

definition payload25 :: "u8 list" where
  "payload25 = [1, 2, 3, 4, 5, 6, 7, 8, 9, 10, 11, 12, 13, 14, 15, 16, 17, 18, 19, 20,
                21, 22, 23, 24, 25]"

text \<open>The number of slots of the multiplexer that hold the handle \<open>h\<close>.\<close>

definition slots_of :: "u16 option list \<Rightarrow> u16 \<Rightarrow> nat" where
  "slots_of t h = length (filter (\<lambda>e. e = Some h) t)"

text \<open>The occupied slots whose connection data carry the role \<open>r\<close>.\<close>

definition role_slots :: "state \<Rightarrow> u8 \<Rightarrow> nat list" where
  "role_slots s r =
     filter (\<lambda>i. conmux s ! i \<noteq> None \<and> role (dev_info s ! i) = r) [0..<length (conmux s)]"

text \<open>
  The structured field list of an advertisement: each field is a type byte and a payload,
  sent as a length byte (1 + the length of the payload), the type byte and the payload,
  as in \<^verbatim>\<open>BLE_ADV_FIELD\<close>. The field the scan looks for has the type
  \<^verbatim>\<open>ADV_SERVICE_UUID128_COMP\<close> and the 16 bytes of \<^verbatim>\<open>hello_service\<close> as payload.
\<close>

type_synonym adv_field = "u8 \<times> u8 list"

definition encode_field :: "adv_field \<Rightarrow> u8 list" where
  "encode_field f = of_nat (length (snd f) + 1) # fst f # snd f"

definition encode_fields :: "adv_field list \<Rightarrow> u8 list" where
  "encode_fields fs = concat (map encode_field fs)"

definition target_field :: "sdk_consts \<Rightarrow> adv_field" where
  "target_field k = (ADV_SERVICE_UUID128_COMP k, hello_service k)"

text \<open>
  Two sample reports: flags and the service UUID of the sensor; flags and another
  128-bit service UUID.
\<close>

definition sensor_report :: adv_report where
  "sensor_report =
     \<lparr>dataLen = 21,
      adv_data = encode_fields [(0x01, [0x06]), target_field sample_consts],
      rssi = 0xc4,
      wd_addr = [0x11, 0x12, 0x13, 0x14, 0x15, 0x16],
      addressType = 0\<rparr>"

definition other_report :: adv_report where
  "other_report =
     \<lparr>dataLen = 21,
      adv_data = encode_fields [(0x01, [0x06]),
                   (ADV_SERVICE_UUID128_COMP sample_consts, rev (hello_service sample_consts))],
      rssi = 0xc4,
      wd_addr = [0x21, 0x22, 0x23, 0x24, 0x25, 0x26],
      addressType = 0\<rparr>"

section \<open>Properties\<close>

subsection \<open>Decoding the two bytes of a configuration write\<close>

lemma le16_or:
  "(ucast (b0::u8) + push_bit 8 (ucast (b1::u8)) :: u16) = ucast b0 OR push_bit 8 (ucast b1)"
  by (rule disjunctive_add_eq_or) (auto simp add: bit_eq_iff bit_simps dest: bit_imp_le_length)

lemma le16_low: "(ucast (ucast (b0::u8) + push_bit 8 (ucast (b1::u8)) :: u16) :: u8) = b0"
  unfolding le16_or
  by (rule bit_word_eqI) (auto simp add: bit_simps)

lemma le16_high:
  "(ucast (drop_bit 8 (ucast (b0::u8) + push_bit 8 (ucast (b1::u8)) :: u16)) :: u8) = b1"
  unfolding le16_or
  by (rule bit_word_eqI) (auto simp add: bit_simps dest: bit_imp_le_length)

lemma and1_bit: "((w::u16) AND 1 \<noteq> 0) = bit w 0"
  using and_exp_eq_0_iff_not_bit [of w 0] by simp

lemma and2_bit: "((w::u16) AND 2 \<noteq> 0) = bit w 1"
  using and_exp_eq_0_iff_not_bit [of w 1] by simp

lemma le16_bit0: "bit (ucast (b0::u8) + push_bit 8 (ucast (b1::u8)) :: u16) 0 = bit b0 0"
  unfolding le16_or by (simp add: bit_simps)

lemma le16_bit1:
  "bit (ucast (b0::u8) + push_bit 8 (ucast (b1::u8)) :: u16) (Suc 0) = bit b0 (Suc 0)"
  unfolding le16_or by (simp add: bit_simps)

lemma le16_unat:
  "unat (ucast (b0::u8) + push_bit 8 (ucast (b1::u8)) :: u16) = unat b0 + 256 * unat b1"
proof -
  have b0: "unat b0 < 256" using unsigned_less [of b0] by simp
  have b1: "unat b1 < 256" using unsigned_less [of b1] by simp
  have a: "unat (ucast b0 :: u16) = unat b0"
    using b0 by (simp add: unsigned_ucast_eq take_bit_eq_mod)
  have b: "unat (push_bit 8 (ucast b1 :: u16)) = 256 * unat b1"
    using b1 by (subst unsigned_push_bit_eq) (simp add: unsigned_ucast_eq take_bit_eq_mod push_bit_eq_mult)
  have "unat (ucast b0 :: u16) + unat (push_bit 8 (ucast b1 :: u16)) < 2 ^ 16"
    unfolding a b using b0 b1 by simp
  then show ?thesis
    using unat_add_lem [of "ucast b0 :: u16" "push_bit 8 (ucast b1)"] a b by simp
qed

lemma nvram_load_snoc: "nvram_load (cs @ [(h, WriteNVRAM key v)]) key = Some v"
  by (induction cs) (auto split: option.splits)

subsection \<open>Writes to the client configuration descriptor\<close>

text \<open>
  Claim C4. A write of exactly two bytes to the client configuration descriptor returns 0
  (success). The stored value is the little-endian reading of the two bytes
  (\<open>b0 + 256 * b1\<close>), so notifications are enabled iff bit 0 of the first byte is set and
  indications iff bit 1 is. One \<^verbatim>\<open>bleprofile_WriteNVRAM\<close> persists the host record, whose
  configuration value is the two input bytes after the address, and a load of the record
  returns those bytes. The write \<open>[0x03, 0x00]\<close> enables both.
\<close>

theorem write_client_configuration:
  "hello_client_write_handler (client_configuration_write b0 b1) s
     = (0, s\<lparr>characteristic_client_configuration := ucast b0 + push_bit 8 (ucast b1),
              out := out s @ [(cur_con s, WriteNVRAM NVRAM_ID_HOST_LIST (bdaddr s @ [b0, b1]))]\<rparr>)
   \<and> unat (characteristic_client_configuration
              (snd (hello_client_write_handler (client_configuration_write b0 b1) s)))
       = unat b0 + 256 * unat b1
   \<and> notify_enabled (snd (hello_client_write_handler (client_configuration_write b0 b1) s)) = bit b0 0
   \<and> indicate_enabled (snd (hello_client_write_handler (client_configuration_write b0 b1) s)) = bit b0 1
   \<and> nvram_load (out (snd (hello_client_write_handler (client_configuration_write b0 b1) s)))
         NVRAM_ID_HOST_LIST = Some (bdaddr s @ [b0, b1])"
  by (simp add: hello_client_write_handler_def client_configuration_write_def
      legattdb_getHandle_def legattdb_getAttrValueLen_def
      legattdb_getAttrValue_def Let_def emit_def hostinfo_bytes_def le16_low le16_high le16_unat
      notify_enabled_def indicate_enabled_def CCC_NOTIFICATION_def CCC_INDICATION_def
      and1_bit and2_bit le16_bit0 le16_bit1 nvram_load_snoc)

theorem write_client_configuration_witness:
  "notify_enabled (snd (hello_client_write_handler (client_configuration_write 0x03 0x00)
                          (hello_client_create sample_consts)))
   \<and> indicate_enabled (snd (hello_client_write_handler (client_configuration_write 0x03 0x00)
                          (hello_client_create sample_consts)))
   \<and> nvram_load (out (snd (hello_client_write_handler (client_configuration_write 0x03 0x00)
                          (hello_client_create sample_consts)))) NVRAM_ID_HOST_LIST
       = Some [0, 0, 0, 0, 0, 0, 0x03, 0x00]"
proof -
  note w = write_client_configuration [of "0x03" "0x00" "hello_client_create sample_consts"]
  have b: "bit (3::u8) 0" "bit (3::u8) 1" by simp_all
  have a: "bdaddr (hello_client_create sample_consts) = [0, 0, 0, 0, 0, 0]"
    by (simp add: hello_client_create_def numeral_eq_Suc)
  from w b(1) have 1: "notify_enabled (snd (hello_client_write_handler
      (client_configuration_write 0x03 0x00) (hello_client_create sample_consts)))"
    by blast
  from w b(2) have 2: "indicate_enabled (snd (hello_client_write_handler
      (client_configuration_write 0x03 0x00) (hello_client_create sample_consts)))"
    by blast
  from w have 3: "nvram_load (out (snd (hello_client_write_handler
      (client_configuration_write 0x03 0x00) (hello_client_create sample_consts))))
      NVRAM_ID_HOST_LIST = Some (bdaddr (hello_client_create sample_consts) @ [0x03, 0x00])"
    by blast
  from 1 2 3 show ?thesis unfolding a by simp
qed

text \<open>
  Claim C5. A write to the client configuration descriptor whose length is not 2, and a
  write to any attribute other than the descriptor and the data value, returns 0x80 to
  the stack and changes nothing: neither the stored configuration nor the log of calls,
  so nothing is persisted.
\<close>

theorem write_rejected:
  assumes "(legattdb_getHandle p = HANDLE_HELLO_CLIENT_CLIENT_CONFIGURATION_DESCRIPTOR
              \<and> legattdb_getAttrValueLen p \<noteq> 2)
           \<or> (legattdb_getHandle p \<noteq> HANDLE_HELLO_CLIENT_CLIENT_CONFIGURATION_DESCRIPTOR
              \<and> legattdb_getHandle p \<noteq> HANDLE_HELLO_CLIENT_DATA_VALUE)"
  shows "hello_client_write_handler p s = (0x80, s)"
  using assms
  by (auto simp add: hello_client_write_handler_def Let_def
      HANDLE_HELLO_CLIENT_CLIENT_CONFIGURATION_DESCRIPTOR_def HANDLE_HELLO_CLIENT_DATA_VALUE_def)

theorem write_rejected_witness:
  "hello_client_write_handler
      \<lparr>entry_handle = HANDLE_HELLO_CLIENT_CLIENT_CONFIGURATION_DESCRIPTOR, entry_value = [0x01]\<rparr>
      (hello_client_create sample_consts) = (0x80, hello_client_create sample_consts)
   \<and> hello_client_write_handler \<lparr>entry_handle = 0x16, entry_value = [0x01, 0x00]\<rparr>
      (hello_client_create sample_consts) = (0x80, hello_client_create sample_consts)"
  using write_rejected [of "\<lparr>entry_handle = HANDLE_HELLO_CLIENT_CLIENT_CONFIGURATION_DESCRIPTOR,
                              entry_value = [0x01]\<rparr>" "hello_client_create sample_consts"]
        write_rejected [of "\<lparr>entry_handle = 0x16, entry_value = [0x01, 0x00]\<rparr>"
                           "hello_client_create sample_consts"]
  by (simp add: legattdb_getHandle_def legattdb_getAttrValueLen_def
      HANDLE_HELLO_CLIENT_CLIENT_CONFIGURATION_DESCRIPTOR_def HANDLE_HELLO_CLIENT_DATA_VALUE_def)

subsection \<open>Relay of a payload to the central\<close>

text \<open>
  Claim C6. When notifications are enabled, the relay of a payload selects the link of
  \<^verbatim>\<open>handle_to_central\<close> and makes exactly one call of \<^verbatim>\<open>bleprofile_sendNotification\<close> on
  it, for the data value characteristic, with the first \<open>min (length payload) 20\<close> bytes
  of the payload; no other call is made. A payload of 25 bytes goes out as its first 20
  bytes: it is cut, not refused.
\<close>

theorem relay_notification:
  assumes "notify_enabled s"
  shows "hello_client_process_data_from_peripheral (int (length bytes)) bytes s
         = s\<lparr>cur_con := ucast (handle_to_central s),
              out := out s @ [(cur_con s, SetPtrConMux (ucast (handle_to_central s))),
                              (ucast (handle_to_central s),
                               SendNotification HANDLE_HELLO_CLIENT_DATA_VALUE
                                 (take (min (length bytes) 20) bytes))]\<rparr>"
  using assms
  by (simp add: hello_client_process_data_from_peripheral_def notify_enabled_def
      blecm_SetPtrConMux_def emit_def min_def)

lemma central_notify_facts:
  "notify_enabled (after [central_up, enable_notify])"
  "\<not> indicate_enabled (after [central_up, enable_notify])"
  "handle_to_central (after [central_up, enable_notify]) = 0x40"
  "conmux (after [central_up, enable_notify]) = [Some 0x40, None, None, None]"
  "cur_con (after [central_up, enable_notify]) = 0x40"
  by code_simp+

theorem relay_notification_witness:
  "notify_enabled (after [central_up, enable_notify])
   \<and> \<not> indicate_enabled (after [central_up, enable_notify])
   \<and> conmux (after [central_up, enable_notify]) = [Some 0x40, None, None, None]
   \<and> out (hello_client_process_data_from_peripheral 25 payload25 (after [central_up, enable_notify]))
       = out (after [central_up, enable_notify])
         @ [(0x40, SetPtrConMux 0x40),
            (0x40, SendNotification 0x2a
               [1, 2, 3, 4, 5, 6, 7, 8, 9, 10, 11, 12, 13, 14, 15, 16, 17, 18, 19, 20])]"
proof -
  let ?s = "after [central_up, enable_notify]"
  have l: "int (length payload25) = 25" by (simp add: payload25_def)
  have t: "take (min (length payload25) 20) payload25
           = [1, 2, 3, 4, 5, 6, 7, 8, 9, 10, 11, 12, 13, 14, 15, 16, 17, 18, 19, 20]"
    by (simp add: payload25_def)
  from relay_notification [OF central_notify_facts(1), of payload25]
  have "out (hello_client_process_data_from_peripheral 25 payload25 ?s)
       = out ?s
         @ [(cur_con ?s, SetPtrConMux (ucast (handle_to_central ?s))),
            (ucast (handle_to_central ?s), SendNotification HANDLE_HELLO_CLIENT_DATA_VALUE
               (take (min (length payload25) 20) payload25))]"
    unfolding l by simp
  then show ?thesis
    unfolding t using central_notify_facts
    by (simp add: HANDLE_HELLO_CLIENT_DATA_VALUE_def)
qed

text \<open>
  Claim C2. The relay does not look at \<^verbatim>\<open>handle_to_central\<close>. After a central has enabled
  notifications and disconnected, \<^verbatim>\<open>handle_to_central\<close> is 0 and only the sensor on
  0x41 holds a slot, yet a notification from the sensor makes the relay select handle 0
  and call \<^verbatim>\<open>bleprofile_sendNotification\<close>: the last two calls of the log. The button
  handler makes the same two calls only under \<^verbatim>\<open>handle_to_central != 0\<close>.
\<close>

theorem relay_without_central:
  "map_option (\<lambda>s. (handle_to_central s, conmux s, out s))
     (run sample_consts
       [central_up, enable_notify, ConnectionDown 0x40, sensor_up,
        Notification 0x41 0x2a [0x0a, 0x0b, 0x0c]] (hello_client_create sample_consts))
   = Some (0, [Some 0x41, None, None, None],
       [(0, Scan NO_SCAN), (0, Discoverable HIGH_UNDIRECTED_DISCOVERABLE),
        (0x40, ConnParamUpdateReq 100 116 0 500),
        (0x40, WriteNVRAM 0x10 [0, 0, 0, 0, 0, 0, 1, 0]),
        (0x40, SetAdvDuringConnEnable True),
        (0x41, SmpSetPtr 0), (0x41, StartPairing),
        (0x41, SetAdvDuringConnEnable True),
        (0x41, Discoverable HIGH_UNDIRECTED_DISCOVERABLE),
        (0x41, SetPtrConMux 0),
        (0, SendNotification 0x2a [0x0a, 0x0b, 0x0c])])"
  by code_simp

text \<open>
  Claim C10. The indication handler makes one call of \<^verbatim>\<open>bleprofile_sendHandleValueConf\<close>
  after the relay, whatever the relay did. When the relay forwarded the payload it has
  selected the link to the central and nothing selects the sensor's link again: with a
  central on 0x40 that enabled notifications, the confirmation of an indication from the
  sensor on 0x41 is the last call of the log and is made on 0x40.
\<close>

theorem indication_confirmed_on_central:
  "map_option out
     (run sample_consts
       [central_up, enable_notify, sensor_up,
        Indication 0x41 0x2a [0x0a, 0x0b, 0x0c]] (hello_client_create sample_consts))
   = Some
       [(0, Scan NO_SCAN), (0, Discoverable HIGH_UNDIRECTED_DISCOVERABLE),
        (0x40, ConnParamUpdateReq 100 116 0 500),
        (0x40, WriteNVRAM 0x10 [0, 0, 0, 0, 0, 0, 1, 0]),
        (0x41, SmpSetPtr 1), (0x41, StartPairing),
        (0x41, SetPtrConMux 0x40),
        (0x40, SendNotification 0x2a [0x0a, 0x0b, 0x0c]),
        (0x40, SendHandleValueConf)]"
  by code_simp

subsection \<open>The counter of peripheral connections\<close>

lemma replicate_4: "replicate 4 x = [x, x, x, x]"
  by (simp add: eval_nat_numeral)

text \<open>
  Claim C1. \<^verbatim>\<open>hello_client_connection_up\<close> counts a connection only in the branch of
  \<^verbatim>\<open>CENTRAL_ROLE\<close>, but \<^verbatim>\<open>hello_client_connection_down\<close> decrements the counter for every
  connection it finds. When the link to a central comes up and goes down, the \<^verbatim>\<open>UINT8\<close>
  counter goes from 0 to 255, for every value of the constants.
\<close>

theorem central_down_wraps_counter:
  "map_option num_peripherals
     (run k [ConnectionUp 0x40 dev_as_peripheral smp, ConnectionDown 0x40] (hello_client_create k))
   = Some 255"
  by (simp add: hello_client_connection_up_def hello_client_connection_down_def
      connection_up_role_def connection_up_restart_def hello_client_create_def
      blecm_ConMuxInit_def blecm_FindConMux_def blecm_FindFreeConMux_def blecm_DelConMux_def
      blecm_AddConMux_def emit_def Let_def HELLO_CLIENT_MAX_PERIPHERALS_def CENTRAL_ROLE_def
      PERIPHERAL_ROLE_def CONNECT_HELLO_SENSOR_def SMP_PAIRING_def SMP_ERASE_KEY_def
      zero_devinfo_def zero_smpinfo_def dev_as_peripheral_def replicate_4)

subsection \<open>The button\<close>

text \<open>
  Claim C8, as the code has it. For a press recorded at a coarse tick other than 0 and
  the release that follows it (whatever happened in between, as long as no other press
  was recorded): with \<open>held\<close> the difference of the tick counter at the release and at the
  press, if \<open>held > 5\<close> advertising is stopped and the high-duty scan started; otherwise,
  if \<^verbatim>\<open>handle_to_central\<close> is not 0, the 12 bytes ``From Client'' are notified on the link
  to the central; otherwise nothing is done.
\<close>

theorem button_release_classified:
  assumes "vp AND 0x01 \<noteq> 0"
      and "app_timer_count sp \<noteq> 0"
      and "button_pushed_time sr = button_pushed_time (snd (hello_client_interrupt_handler vp sp))"
      and "vr AND 0x01 = 0"
  shows "hello_client_interrupt_handler vr sr =
           (0, if app_timer_count sr - app_timer_count sp > 5 then
                 sr\<lparr>out := out sr @ [(cur_con sr, Discoverable NO_DISCOVERABLE),
                                      (cur_con sr, Scan HIGH_SCAN)]\<rparr>
               else if handle_to_central sr \<noteq> 0 then
                 sr\<lparr>cur_con := ucast (handle_to_central sr),
                    out := out sr @ [(cur_con sr, SetPtrConMux (ucast (handle_to_central sr))),
                                    (ucast (handle_to_central sr),
                                     SendNotification HANDLE_HELLO_CLIENT_DATA_VALUE from_client_buf)]\<rparr>
               else sr)"
  using assms
  by (simp add: hello_client_interrupt_handler_def blecm_SetPtrConMux_def emit_def from_client_buf_def)

theorem button_release_classified_witness:
  "hello_client_interrupt_handler 0 (after [tick, press, tick, tick, tick, tick, tick, tick])
     = (0, (after [tick, press, tick, tick, tick, tick, tick, tick])
           \<lparr>out := out (after [tick, press, tick, tick, tick, tick, tick, tick])
                   @ [(0, Discoverable NO_DISCOVERABLE), (0, Scan HIGH_SCAN)]\<rparr>)
   \<and> hello_client_interrupt_handler 0 (after [central_up, tick, press, tick, tick, tick])
     = (0, (after [central_up, tick, press, tick, tick, tick])
           \<lparr>cur_con := 0x40,
             out := out (after [central_up, tick, press, tick, tick, tick])
                   @ [(0x40, SetPtrConMux 0x40), (0x40, SendNotification 0x2a from_client_buf)]\<rparr>)
   \<and> hello_client_interrupt_handler 0 (after [tick, press, tick, tick, tick])
     = (0, after [tick, press, tick, tick, tick])"
proof -
  let ?sp = "after [tick]" and ?spc = "after [central_up, tick]"
  let ?s6 = "after [tick, press, tick, tick, tick, tick, tick, tick]"
  let ?s3c = "after [central_up, tick, press, tick, tick, tick]"
  let ?s3 = "after [tick, press, tick, tick, tick]"
  have p: "(1::u32) AND 0x01 \<noteq> 0" and r: "(0::u32) AND 0x01 = 0" by simp_all
  have nz: "app_timer_count ?sp \<noteq> 0" "app_timer_count ?spc \<noteq> 0" by code_simp+
  have k6: "button_pushed_time ?s6 = button_pushed_time (snd (hello_client_interrupt_handler 1 ?sp))"
    by code_simp
  have k3c: "button_pushed_time ?s3c = button_pushed_time (snd (hello_client_interrupt_handler 1 ?spc))"
    by code_simp
  have k3: "button_pushed_time ?s3 = button_pushed_time (snd (hello_client_interrupt_handler 1 ?sp))"
    by code_simp
  have held: "app_timer_count ?s6 - app_timer_count ?sp = 6"
    "app_timer_count ?s3c - app_timer_count ?spc = 3"
    "app_timer_count ?s3 - app_timer_count ?sp = 3"
    by code_simp+
  have c: "cur_con ?s6 = 0" "cur_con ?s3c = 0x40" "handle_to_central ?s3c = 0x40"
    "handle_to_central ?s3 = 0"
    by code_simp+
  from button_release_classified [OF p nz(1) k6 r]
       button_release_classified [OF p nz(2) k3c r]
       button_release_classified [OF p nz(1) k3 r]
  show ?thesis
    unfolding held c by (simp add: HANDLE_HELLO_CLIENT_DATA_VALUE_def)
qed

text \<open>
  Against C8 as stated: the button is pressed before the first tick (the counter is 0),
  held for 6 ticks and released. The release does nothing.
\<close>

theorem tick0_press_long_hold_counterexample:
  "app_timer_count (after [press, tick, tick, tick, tick, tick, tick])
     - app_timer_count (hello_client_create sample_consts) = 6
   \<and> hello_client_interrupt_handler 0 (after [press, tick, tick, tick, tick, tick, tick])
      = (0, after [press, tick, tick, tick, tick, tick, tick])"
  by code_simp

text \<open>
  Claim C9, as the code has it. There is no armed flag: the handler tests the stored
  press time against 0. A release does nothing and changes nothing when no press was
  recorded before it, and also when the press before it was recorded while the tick
  counter was 0, whatever the time held.
\<close>

theorem release_with_zero_press_time_ignored:
  assumes "vr AND 0x01 = 0"
      and "button_pushed_time sr = 0
           \<or> (vp AND 0x01 \<noteq> 0 \<and> app_timer_count sp = 0
              \<and> button_pushed_time sr = button_pushed_time (snd (hello_client_interrupt_handler vp sp)))"
  shows "hello_client_interrupt_handler vr sr = (0, sr)"
  using assms
  by (auto simp add: hello_client_interrupt_handler_def)

theorem release_with_zero_press_time_ignored_witness:
  "hello_client_interrupt_handler 0 (after [tick, tick]) = (0, after [tick, tick])
   \<and> hello_client_interrupt_handler 0 (after [central_up, press, tick, tick, tick, tick, tick, tick, tick])
      = (0, after [central_up, press, tick, tick, tick, tick, tick, tick, tick])"
proof -
  have r: "(0::u32) AND 0x01 = 0" by simp
  have a: "button_pushed_time (after [tick, tick]) = 0" by code_simp
  have b: "(1::u32) AND 0x01 \<noteq> 0 \<and> app_timer_count (after [central_up]) = 0
           \<and> button_pushed_time (after [central_up, press, tick, tick, tick, tick, tick, tick, tick])
             = button_pushed_time (snd (hello_client_interrupt_handler 1 (after [central_up])))"
    by code_simp
  from release_with_zero_press_time_ignored [OF r disjI1 [OF a]]
       release_with_zero_press_time_ignored [OF r disjI2 [OF b]]
  show ?thesis by simp
qed

text \<open>
  Against C9 as stated: with a central connected, a press held for 3 ticks is answered
  with the sample notification when it was recorded at tick 1, and with nothing when it
  was recorded at tick 0.
\<close>

theorem tick0_press_differs_counterexample:
  "out (snd (hello_client_interrupt_handler 0 (after [central_up, press, tick, tick, tick])))
     = out (after [central_up, press, tick, tick, tick])
   \<and> out (snd (hello_client_interrupt_handler 0 (after [central_up, tick, press, tick, tick, tick])))
     = out (after [central_up, tick, press, tick, tick, tick])
       @ [(0x40, SetPtrConMux 0x40), (0x40, SendNotification 0x2a from_client_buf)]"
  by code_simp

subsection \<open>Advertisement reports\<close>

lemma length_hello_service [simp]: "length (hello_service k) = 16"
  by (simp add: hello_service_def)

lemma length_encode_field [simp]: "length (encode_field f) = length (snd f) + 2"
  by (simp add: encode_field_def)

lemma encode_fields_Cons [simp]: "encode_fields (f # fs) = encode_field f @ encode_fields fs"
  by (simp add: encode_fields_def)

lemma encode_fields_Nil [simp]: "encode_fields [] = []"
  by (simp add: encode_fields_def)

lemma encode_fields_nonempty: "fs \<noteq> [] \<Longrightarrow> 2 \<le> length (encode_fields fs)"
  by (cases fs) simp_all

text \<open>One turn of the loop at the start of a field.\<close>

lemma adv_find_field:
  assumes "length p + 1 < 256"
  shows "adv_find k (pre @ encode_field (t, p) @ rest) dlen (length pre) =
           (if (t, p) = target_field k then Some True
            else if dlen \<le> length pre + length (encode_field (t, p)) then Some False
            else adv_find k (pre @ encode_field (t, p) @ rest) dlen
                   (length pre + length (encode_field (t, p))))"
proof -
  define buf where "buf = pre @ encode_field (t, p) @ rest"
  define n where "n = length pre"
  have len: "unat (of_nat (length p + 1) :: u8) = length p + 1"
    using assms by (simp add: unat_of_nat take_bit_eq_mod del: of_nat_Suc of_nat_add)
  have lb: "length buf = n + (length p + 2) + length rest"
    by (simp add: buf_def n_def)
  have b0: "buf ! n = of_nat (length p + 1)"
    by (simp add: buf_def n_def encode_field_def nth_append)
  have b1: "buf ! Suc n = t"
    by (simp add: buf_def n_def encode_field_def nth_append)
  have l17: "(of_nat (length p + 1) :: u8) = 16 + 1 \<longleftrightarrow> length p = 16"
  proof
    assume "(of_nat (length p + 1) :: u8) = 16 + 1"
    then have "unat (of_nat (length p + 1) :: u8) = unat (17 :: u8)" by simp
    then show "length p = 16" unfolding len by simp
  next
    assume "length p = 16"
    then show "(of_nat (length p + 1) :: u8) = 16 + 1" by simp
  qed
  have dr: "drop (Suc (Suc n)) buf = p @ rest"
    by (simp add: buf_def n_def encode_field_def)
  have tk: "length p = 16 \<Longrightarrow> take 16 (drop (Suc (Suc n)) buf) = p"
    unfolding dr by simp
  have tgt: "(t, p) = target_field k \<longleftrightarrow>
       length p = 16 \<and> t = ADV_SERVICE_UUID128_COMP k \<and> p = hello_service k"
    by (auto simp add: target_field_def)
  have step: "n + (unat (buf ! n) + 1) = n + (length p + 2)"
    unfolding b0 len by simp
  have "adv_find k buf dlen n =
           (if (t, p) = target_field k then Some True
            else if dlen \<le> n + (length p + 2) then Some False
            else adv_find k buf dlen (n + (length p + 2)))"
  proof (cases "length p = 16")
    case True
    show ?thesis
      by (subst adv_find.simps, unfold step)
         (simp add: lb b0 b1 tk [OF True] tgt True)
  next
    case False
    then have "buf ! n \<noteq> 16 + 1" unfolding b0 l17 .
    then show ?thesis
      by (subst adv_find.simps, unfold step) (simp add: lb tgt False)
  qed
  then show ?thesis
    by (simp add: buf_def n_def)
qed

lemma adv_find_fields:
  assumes "fs \<noteq> []" and "length pre + length (encode_fields fs) < 256"
  shows "adv_find k (pre @ encode_fields fs @ rest) (length pre + length (encode_fields fs))
           (length pre) = Some (target_field k \<in> set fs)"
  using assms
proof (induction fs arbitrary: pre)
  case Nil
  then show ?case by simp
next
  case (Cons f fs)
  obtain t p where f: "f = (t, p)" by (cases f)
  have small: "length p + 1 < 256" using Cons.prems(2) by (simp add: f)
  note one = adv_find_field [OF small, of k pre t "encode_fields fs @ rest"
                               "length pre + length (encode_fields (f # fs))"]
  show ?case
  proof (cases "(t, p) = target_field k")
    case True
    then show ?thesis using one by (simp add: f)
  next
    case False
    show ?thesis
    proof (cases "fs = []")
      case True
      then show ?thesis using one False by (simp add: f)
    next
      case nonempty: False
      have "adv_find k ((pre @ encode_field f) @ encode_fields fs @ rest)
              (length (pre @ encode_field f) + length (encode_fields fs))
              (length (pre @ encode_field f)) = Some (target_field k \<in> set fs)"
        using Cons.IH [OF nonempty, of "pre @ encode_field f"] Cons.prems(2) by simp
      moreover have "\<not> length pre + length (encode_fields (f # fs))
                       \<le> length pre + length (encode_field (t, p))"
        using encode_fields_nonempty [OF nonempty] by (auto simp add: f)
      ultimately show ?thesis using one False
        by (simp add: f add.assoc) 
    qed
  qed
qed

text \<open>
  Claim C7. Take a report whose data are a non-empty structured field list that fits the
  maximal data length, with \<^verbatim>\<open>CONNECT_HELLO_SENSOR\<close> set in \<^verbatim>\<open>app_config\<close> (as start-up
  sets it). If one of the fields is the 17-byte field of type \<^verbatim>\<open>ADV_SERVICE_UUID128_COMP\<close>
  with the 16 bytes of \<^verbatim>\<open>hello_service\<close>, the handler stops advertising, makes exactly one
  connect call, to the address of the report, and stops scanning. If no field is that
  one, in particular if the list holds only another 16-byte UUID, it makes no connect
  call: only the watchdog restart and the stack's own report callback are called.
\<close>

theorem advertisement_report_connects_to_target:
  assumes "app_config s AND CONNECT_HELLO_SENSOR \<noteq> 0"
      and "fs \<noteq> []"
      and "adv_data evt = encode_fields fs @ rest"
      and "unat (dataLen evt) = length (encode_fields fs)"
      and "length (encode_fields fs) \<le> HCIULP_MAX_DATA_LENGTH k"
  shows "hello_client_advertisement_report k evt s =
           Some (s\<lparr>out := out s @ map (Pair (cur_con s))
                   ([WdogRestart, CenLeAdvReportCb] @
                    (if target_field k \<in> set fs
                     then [Discoverable NO_DISCOVERABLE,
                           Conn HIGH_CONN (wd_addr evt) (addressType evt),
                           Scan NO_SCAN]
                     else []))\<rparr>)"
proof -
  have "unat (dataLen evt) < 256" using unsigned_less [of "dataLen evt"] by simp
  then have small: "length [] + length (encode_fields fs) < 256"
    using assms(4) by simp
  have find: "adv_find k (adv_data evt) (unat (dataLen evt)) 0 = Some (target_field k \<in> set fs)"
    using adv_find_fields [OF assms(2) small, of k rest] assms(3,4) by simp
  show ?thesis
    using assms(1,4,5) find
    by (simp add: hello_client_advertisement_report_def Let_def emit_def)
qed

theorem advertisement_report_connects_to_target_witness:
  "hello_client_advertisement_report sample_consts sensor_report (hello_client_create sample_consts)
     = Some ((hello_client_create sample_consts)
         \<lparr>out := out (hello_client_create sample_consts)
            @ [(0, WdogRestart), (0, CenLeAdvReportCb), (0, Discoverable NO_DISCOVERABLE),
               (0, Conn HIGH_CONN [0x11, 0x12, 0x13, 0x14, 0x15, 0x16] 0), (0, Scan NO_SCAN)]\<rparr>)
   \<and> hello_client_advertisement_report sample_consts other_report (hello_client_create sample_consts)
     = Some ((hello_client_create sample_consts)
         \<lparr>out := out (hello_client_create sample_consts)
            @ [(0, WdogRestart), (0, CenLeAdvReportCb)]\<rparr>)"
proof -
  let ?s = "hello_client_create sample_consts"
  let ?fs1 = "[(0x01, [0x06]), target_field sample_consts]"
  let ?fs2 = "[(0x01, [0x06]),
               (ADV_SERVICE_UUID128_COMP sample_consts, rev (hello_service sample_consts))]"
  have cfg: "app_config ?s AND CONNECT_HELLO_SENSOR \<noteq> 0" by code_simp
  have c: "cur_con ?s = 0" by (simp add: hello_client_create_def)
  have d1: "adv_data sensor_report = encode_fields ?fs1 @ []" by (simp add: sensor_report_def)
  have n1: "unat (dataLen sensor_report) = length (encode_fields ?fs1)" by code_simp
  have m1: "length (encode_fields ?fs1) \<le> HCIULP_MAX_DATA_LENGTH sample_consts" by code_simp
  have a1: "wd_addr sensor_report = [0x11, 0x12, 0x13, 0x14, 0x15, 0x16]"
    "addressType sensor_report = 0" by (simp_all add: sensor_report_def)
  have d2: "adv_data other_report = encode_fields ?fs2 @ []" by (simp add: other_report_def)
  have n2: "unat (dataLen other_report) = length (encode_fields ?fs2)" by code_simp
  have m2: "length (encode_fields ?fs2) \<le> HCIULP_MAX_DATA_LENGTH sample_consts" by code_simp
  have t2: "target_field sample_consts \<notin> set ?fs2" by code_simp
  from advertisement_report_connects_to_target [OF cfg _ d1 n1 m1]
       advertisement_report_connects_to_target [OF cfg _ d2 n2 m2] t2
  show ?thesis by (simp add: c a1)
qed

subsection \<open>Handles and slots\<close>

lemma find_first_None: "find_first P xs = None \<longleftrightarrow> (\<forall>x\<in>set xs. \<not> P x)"
  by (induction xs) auto

lemma find_first_Some:
  "find_first P xs = Some i \<Longrightarrow> i < length xs \<and> P (xs ! i) \<and> (\<forall>j<i. \<not> P (xs ! j))"
proof (induction xs arbitrary: i)
  case Nil
  then show ?case by simp
next
  case (Cons x xs)
  show ?case
  proof (cases "P x")
    case True
    with Cons.prems show ?thesis by simp
  next
    case False
    with Cons.prems obtain i' where i': "find_first P xs = Some i'" "i = Suc i'"
      by auto
    from Cons.IH [OF i'(1)] False i'(2) show ?thesis
      by (auto simp add: less_Suc_eq_0_disj)
  qed
qed

lemma find_first_update_new:
  "\<forall>x\<in>set xs. \<not> P x \<Longrightarrow> j < length xs \<Longrightarrow> P y \<Longrightarrow> find_first P (xs[j := y]) = Some j"
proof (induction xs arbitrary: j)
  case Nil
  then show ?case by simp
next
  case (Cons x xs)
  then show ?case by (cases j) auto
qed

lemma length_filter_update:
  "i < length xs \<Longrightarrow>
   length (filter P (xs[i := y])) + (if P (xs ! i) then 1 else 0)
     = length (filter P xs) + (if P y then 1 else 0)"
proof (induction xs arbitrary: i)
  case Nil
  then show ?case by simp
next
  case (Cons x xs)
  then show ?case by (cases i) auto
qed

lemma slots_of_zero: "slots_of t h = 0 \<longleftrightarrow> Some h \<notin> set t"
  by (auto simp add: slots_of_def filter_empty_conv)

lemma slots_of_del:
  "i < length t \<Longrightarrow>
   slots_of (t[i := None]) g = slots_of t g - (if t ! i = Some g then 1 else 0)"
  using length_filter_update [of i t "\<lambda>e. e = Some g" None]
  by (simp add: slots_of_def split: if_splits)

lemma slots_of_add:
  "j < length t \<Longrightarrow> t ! j = None \<Longrightarrow>
   slots_of (t[j := Some h]) g = slots_of t g + (if g = h then 1 else 0)"
  using length_filter_update [of j t "\<lambda>e. e = Some g" "Some h"]
  by (simp add: slots_of_def split: if_splits)


lemma emit_fields [simp]:
  "conmux (emit c s) = conmux s" "cur_con (emit c s) = cur_con s"
  "dev_info (emit c s) = dev_info s" "num_peripherals (emit c s) = num_peripherals s"
  "handle_to_central (emit c s) = handle_to_central s" "app_config (emit c s) = app_config s"
  by (simp_all add: emit_def)

lemma conmux_connection_up_role [simp]: "conmux (connection_up_role k i h s) = conmux s"
  by (simp add: connection_up_role_def Let_def)

lemma conmux_connection_up_restart [simp]: "conmux (connection_up_restart s) = conmux s"
  by (simp add: connection_up_restart_def)

lemma conmux_connection_up:
  "conmux (hello_client_connection_up k dev smp s) =
     (case blecm_FindFreeConMux
             (case blecm_FindConMux (conmux s) (cur_con s) of
                None \<Rightarrow> conmux s | Some i \<Rightarrow> (conmux s)[i := None]) of
        None \<Rightarrow> (case blecm_FindConMux (conmux s) (cur_con s) of
                   None \<Rightarrow> conmux s | Some i \<Rightarrow> (conmux s)[i := None])
      | Some j \<Rightarrow> (case blecm_FindConMux (conmux s) (cur_con s) of
                     None \<Rightarrow> conmux s | Some i \<Rightarrow> (conmux s)[i := None])[j := Some (cur_con s)])"
  by (simp add: hello_client_connection_up_def Let_def blecm_DelConMux_def blecm_AddConMux_def
      split: option.splits)

lemma conmux_connection_down:
  "conmux (hello_client_connection_down s) =
     (case blecm_FindConMux (conmux s) (cur_con s) of
        None \<Rightarrow> conmux s | Some i \<Rightarrow> (conmux s)[i := None])"
  by (simp add: hello_client_connection_down_def Let_def blecm_DelConMux_def split: option.splits)

text \<open>Freeing the slot found for a handle leaves no slot with that handle.\<close>

lemma evict_handle:
  assumes "\<forall>g. slots_of t g \<le> 1"
  shows "slots_of (case blecm_FindConMux t h of None \<Rightarrow> t | Some i \<Rightarrow> t[i := None]) h = 0"
    and "g \<noteq> h \<Longrightarrow>
         slots_of (case blecm_FindConMux t h of None \<Rightarrow> t | Some i \<Rightarrow> t[i := None]) g = slots_of t g"
    and "slots_of (case blecm_FindConMux t h of None \<Rightarrow> t | Some i \<Rightarrow> t[i := None]) g \<le> slots_of t g"
proof -
  show "slots_of (case blecm_FindConMux t h of None \<Rightarrow> t | Some i \<Rightarrow> t[i := None]) h = 0"
  proof (cases "blecm_FindConMux t h")
    case None
    then have "Some h \<notin> set t"
      by (auto simp add: blecm_FindConMux_def find_first_None)
    then show ?thesis using None by (simp add: slots_of_zero)
  next
    case (Some i)
    then have "i < length t" "t ! i = Some h"
      using find_first_Some [of "\<lambda>e. e = Some h" t i] by (simp_all add: blecm_FindConMux_def)
    moreover have "slots_of t h \<le> 1" using assms by simp
    ultimately show ?thesis using Some by (simp add: slots_of_del)
  qed
  show "slots_of (case blecm_FindConMux t h of None \<Rightarrow> t | Some i \<Rightarrow> t[i := None]) g = slots_of t g"
    if "g \<noteq> h"
  proof (cases "blecm_FindConMux t h")
    case None
    then show ?thesis by simp
  next
    case (Some i)
    then have "i < length t" "t ! i = Some h"
      using find_first_Some [of "\<lambda>e. e = Some h" t i] by (simp_all add: blecm_FindConMux_def)
    then show ?thesis using Some that by (simp add: slots_of_del)
  qed
  show "slots_of (case blecm_FindConMux t h of None \<Rightarrow> t | Some i \<Rightarrow> t[i := None]) g \<le> slots_of t g"
  proof (cases "blecm_FindConMux t h")
    case None
    then show ?thesis by simp
  next
    case (Some i)
    then have "i < length t"
      using find_first_Some [of "\<lambda>e. e = Some h" t i] by (simp_all add: blecm_FindConMux_def)
    then show ?thesis using Some by (simp add: slots_of_del)
  qed
qed

lemma connection_up_unique:
  assumes "\<forall>g. slots_of (conmux s) g \<le> 1"
  shows "slots_of (conmux (hello_client_connection_up k dev smp s)) g \<le> 1"
proof -
  let ?t1 = "case blecm_FindConMux (conmux s) (cur_con s) of
               None \<Rightarrow> conmux s | Some i \<Rightarrow> (conmux s)[i := None]"
  note ev = evict_handle [OF assms, of "cur_con s"]
  have le: "slots_of ?t1 g \<le> 1" using ev(3) [of g] assms le_trans by blast
  show ?thesis
  proof (cases "blecm_FindFreeConMux ?t1")
    case None
    then show ?thesis using le by (simp add: conmux_connection_up)
  next
    case (Some j)
    then have j: "j < length ?t1" "?t1 ! j = None"
      using find_first_Some [of "\<lambda>e. e = None" ?t1 j] by (simp_all add: blecm_FindFreeConMux_def)
    have "slots_of (?t1[j := Some (cur_con s)]) g \<le> 1"
      using slots_of_add [OF j, of "cur_con s" g] ev(1) le by (cases "g = cur_con s") simp_all
    then show ?thesis using Some by (simp add: conmux_connection_up)
  qed
qed

lemma connection_down_unique:
  assumes "\<forall>g. slots_of (conmux s) g \<le> 1"
  shows "slots_of (conmux (hello_client_connection_down s)) g \<le> 1"
  using evict_handle(3) [OF assms, of "cur_con s" g] assms le_trans
  unfolding conmux_connection_down by blast


lemma conmux_cur_con_update [simp]: "conmux (s\<lparr>cur_con := h\<rparr>) = conmux s"
  by simp

lemma conmux_process_data [simp]:
  "conmux (hello_client_process_data_from_peripheral len bytes s) = conmux s"
  by (simp add: hello_client_process_data_from_peripheral_def blecm_SetPtrConMux_def)

lemma conmux_write_handler [simp]: "conmux (snd (hello_client_write_handler p s)) = conmux s"
  by (simp add: hello_client_write_handler_def Let_def)

lemma conmux_interrupt_handler [simp]:
  "conmux (snd (hello_client_interrupt_handler v s)) = conmux s"
  by (simp add: hello_client_interrupt_handler_def Let_def blecm_SetPtrConMux_def)

lemma conmux_app_timer [simp]: "conmux (hello_client_app_timer k arg s) = conmux s"
  by (simp add: hello_client_app_timer_def Let_def)

lemma conmux_advertisement_report:
  "hello_client_advertisement_report k evt s = Some s' \<Longrightarrow> conmux s' = conmux s"
  by (auto simp add: hello_client_advertisement_report_def Let_def
      split: if_splits option.splits bool.splits)

lemma step_unique:
  assumes "step k e s = Some s'" and "\<forall>g. slots_of (conmux s) g \<le> 1"
  shows "slots_of (conmux s') g \<le> 1"
proof (cases e)
  case (ConnectionUp h dev smp)
  with assms(1) have "s' = hello_client_connection_up k dev smp (s\<lparr>cur_con := h\<rparr>)" by simp
  then show ?thesis using connection_up_unique [where s = "s\<lparr>cur_con := h\<rparr>" and g = g and k = k and dev = dev and smp = smp] assms(2) by simp
next
  case (ConnectionDown h)
  with assms(1) have "s' = hello_client_connection_down (s\<lparr>cur_con := h\<rparr>)" by simp
  then show ?thesis using connection_down_unique [where s = "s\<lparr>cur_con := h\<rparr>" and g = g] assms(2) by simp
next
  case (AdvertisementReport evt)
  with assms show ?thesis by (simp add: conmux_advertisement_report)
next
  case (Notification h a bytes)
  with assms show ?thesis by (auto simp add: hello_client_notification_handler_def)
next
  case (Indication h a bytes)
  with assms show ?thesis by (auto simp add: hello_client_indication_handler_def)
next
  case (WriteReceived h p)
  with assms show ?thesis by auto
next
  case (Interrupt v)
  with assms show ?thesis by auto
next
  case (AppTimer arg)
  with assms show ?thesis by auto
next
  case (AppFineTimer arg)
  with assms show ?thesis by (auto simp add: hello_client_app_fine_timer_def)
next
  case (SmpPairResult h result)
  with assms show ?thesis by (auto simp add: hello_client_smp_pair_result_def Let_def)
next
  case (EncryptionChanged h status)
  with assms show ?thesis by (auto simp add: hello_client_encryption_changed_def)
next
  case (TimerCallback arg conn)
  with assms show ?thesis by (auto simp add: hello_client_timer_callback_def)
qed

lemma run_unique:
  "run k evs s = Some s' \<Longrightarrow> \<forall>g. slots_of (conmux s) g \<le> 1 \<Longrightarrow> slots_of (conmux s') g \<le> 1"
proof (induction evs arbitrary: s)
  case Nil
  then show ?case by simp
next
  case (Cons e evs)
  from Cons.prems(1) obtain s1 where s1: "step k e s = Some s1" "run k evs s1 = Some s'"
    by (auto split: option.splits)
  have "\<forall>g. slots_of (conmux s1) g \<le> 1"
    using step_unique [OF s1(1) Cons.prems(2)] by simp
  with Cons.IH [OF s1(2)] show ?case by simp
qed

lemma create_unique: "slots_of (conmux (hello_client_create k)) g = 0"
  by (simp add: hello_client_create_def blecm_ConMuxInit_def slots_of_def)

text \<open>Registering a handle that already has a slot keeps the number of slots of every handle.\<close>

lemma connection_up_reregister:
  assumes "\<forall>g. slots_of (conmux s) g \<le> 1" and "slots_of (conmux s) (cur_con s) = 1"
  shows "slots_of (conmux (hello_client_connection_up k dev smp s)) g = slots_of (conmux s) g"
proof -
  let ?t = "conmux s" and ?h = "cur_con s"
  from assms(2) have "Some ?h \<in> set ?t"
    using slots_of_zero [of ?t ?h] by simp
  then obtain i where find: "blecm_FindConMux ?t ?h = Some i"
    using find_first_None [of "\<lambda>e. e = Some ?h" ?t] by (auto simp add: blecm_FindConMux_def)
  then have i: "i < length ?t" "?t ! i = Some ?h"
    using find_first_Some [of "\<lambda>e. e = Some ?h" ?t i] by (simp_all add: blecm_FindConMux_def)
  then have "None \<in> set (?t[i := None])"
    by (simp add: set_update_memI)
  then obtain j where free: "blecm_FindFreeConMux (?t[i := None]) = Some j"
    using find_first_None [of "\<lambda>e. e = None" "?t[i := None]"]
    by (auto simp add: blecm_FindFreeConMux_def)
  then have j: "j < length (?t[i := None])" "?t[i := None] ! j = None"
    using find_first_Some [of "\<lambda>e. e = None" "?t[i := None]" j]
    by (simp_all add: blecm_FindFreeConMux_def)
  have "conmux (hello_client_connection_up k dev smp s) = ?t[i := None, j := Some ?h]"
    using find free by (simp add: conmux_connection_up)
  then show ?thesis
    using slots_of_add [OF j, of ?h g] slots_of_del [OF i(1), of g] i(2) assms(2)
    by auto
qed

text \<open>Registering the same handle a second time leaves the table as the first left it.\<close>

lemma connection_up_idempotent:
  assumes "\<forall>g. slots_of (conmux s) g \<le> 1"
  shows "conmux (hello_client_connection_up k dev' smp'
                   ((hello_client_connection_up k dev smp s)\<lparr>cur_con := cur_con s\<rparr>))
         = conmux (hello_client_connection_up k dev smp s)"
proof -
  let ?h = "cur_con s"
  let ?t1 = "case blecm_FindConMux (conmux s) ?h of
               None \<Rightarrow> conmux s | Some i \<Rightarrow> (conmux s)[i := None]"
  note ev = evict_handle [OF assms, of ?h]
  have no_h: "\<forall>x\<in>set ?t1. x \<noteq> Some ?h"
    using ev(1) slots_of_zero [of ?t1 ?h] by auto
  show ?thesis
  proof (cases "blecm_FindFreeConMux ?t1")
    case None
    then have t': "conmux (hello_client_connection_up k dev smp s) = ?t1"
      by (simp add: conmux_connection_up)
    have "blecm_FindConMux ?t1 ?h = None"
      using no_h find_first_None [of "\<lambda>e. e = Some ?h" ?t1] by (simp add: blecm_FindConMux_def)
    then show ?thesis
      using None by (simp add: conmux_connection_up [of k dev' smp'] t')
  next
    case (Some j)
    then have j: "j < length ?t1" "?t1 ! j = None"
      using find_first_Some [of "\<lambda>e. e = None" ?t1 j] by (simp_all add: blecm_FindFreeConMux_def)
    from Some have t': "conmux (hello_client_connection_up k dev smp s) = ?t1[j := Some ?h]"
      by (simp add: conmux_connection_up)
    have "blecm_FindConMux (?t1[j := Some ?h]) ?h = Some j"
      using find_first_update_new [OF _ j(1), of "\<lambda>e. e = Some ?h" "Some ?h"] no_h
      by (simp add: blecm_FindConMux_def)
    moreover have "?t1[j := Some ?h, j := None] = ?t1"
      using j by (simp add: list_update_id [of ?t1 j, unfolded j(2)])
    ultimately show ?thesis
      using Some by (simp add: conmux_connection_up [of k dev' smp'] t')
  qed
qed

text \<open>
  Claim C3, as the code has it. In every state the events can lead to, a connection
  handle is held by at most one slot of the multiplexer. A connection-up for a handle
  that already has a slot frees that slot first and then takes a free one, so that every
  handle has as many slots after it as before: the handle is registered once, not twice.
  A second connection-up for the same handle leaves the slot table as the first left it.
  The code does not bound the number of slots of the central's role.
\<close>

theorem handle_has_one_slot:
  assumes "run k evs (hello_client_create k) = Some s"
      and "step k (ConnectionUp h dev smp) s = Some s1"
      and "step k (ConnectionUp h dev' smp') s1 = Some s2"
  shows "slots_of (conmux s) g \<le> 1
         \<and> (slots_of (conmux s) h = 1 \<longrightarrow> slots_of (conmux s1) g = slots_of (conmux s) g)
         \<and> conmux s2 = conmux s1"
proof -
  have inv: "\<forall>g. slots_of (conmux s) g \<le> 1"
    using run_unique [OF assms(1)] by (simp add: create_unique)
  have s1: "s1 = hello_client_connection_up k dev smp (s\<lparr>cur_con := h\<rparr>)"
    using assms(2) by simp
  have c1: "cur_con s1 = h"
    unfolding s1 by (simp add: hello_client_connection_up_def Let_def connection_up_role_def
        connection_up_restart_def emit_def split: option.splits)
  have s2: "s2 = hello_client_connection_up k dev' smp' (s1\<lparr>cur_con := h\<rparr>)"
    using assms(3) by simp
  have "slots_of (conmux s1) g = slots_of (conmux s) g" if "slots_of (conmux s) h = 1"
    unfolding s1
    using connection_up_reregister [where s = "s\<lparr>cur_con := h\<rparr>" and g = g and k = k
        and dev = dev and smp = smp] inv that by simp
  moreover have "conmux s2 = conmux s1"
    unfolding s2 s1
    using connection_up_idempotent [where s = "s\<lparr>cur_con := h\<rparr>" and k = k and dev = dev
        and smp = smp and dev' = dev' and smp' = smp'] inv by simp
  ultimately show ?thesis using inv by simp
qed

theorem handle_has_one_slot_witness:
  "slots_of (conmux (after [central_up, sensor_up])) 0x41 = 1
   \<and> slots_of (conmux (after [central_up, sensor_up, sensor_up])) 0x41 = 1
   \<and> conmux (after [central_up, sensor_up, sensor_up, sensor_up])
       = conmux (after [central_up, sensor_up, sensor_up])"
proof -
  have r: "run sample_consts [central_up, sensor_up] (hello_client_create sample_consts)
           = Some (after [central_up, sensor_up])"
    by code_simp
  have u1: "step sample_consts (ConnectionUp 0x41 dev_as_central zero_smpinfo)
              (after [central_up, sensor_up]) = Some (after [central_up, sensor_up, sensor_up])"
    by code_simp
  have u2: "step sample_consts (ConnectionUp 0x41 dev_as_central zero_smpinfo)
              (after [central_up, sensor_up, sensor_up])
            = Some (after [central_up, sensor_up, sensor_up, sensor_up])"
    by code_simp
  have one: "slots_of (conmux (after [central_up, sensor_up])) 0x41 = 1"
    by code_simp
  from handle_has_one_slot [OF r u1 u2, of "0x41"] one
  show ?thesis by simp
qed

text \<open>
  Against C3 as stated: two connections on which the peer is the central come up on
  different handles, then two on which the peer is a peripheral. Both are accepted: the
  slots 0 and 1 carry \<^verbatim>\<open>PERIPHERAL_ROLE\<close>, the slots 2 and 3 \<^verbatim>\<open>CENTRAL_ROLE\<close>, and
  \<^verbatim>\<open>handle_to_central\<close> is the second handle. So more than one slot has the role of the
  central, whichever of the two roles of the source the spec's ``Central'' names.
\<close>

theorem two_central_slots_counterexample:
  "map_option (\<lambda>s. (handle_to_central s, role_slots s PERIPHERAL_ROLE, role_slots s CENTRAL_ROLE))
     (run sample_consts
        [ConnectionUp 0x40 dev_as_peripheral zero_smpinfo,
         ConnectionUp 0x41 dev_as_peripheral zero_smpinfo,
         ConnectionUp 0x42 dev_as_central zero_smpinfo,
         ConnectionUp 0x43 dev_as_central zero_smpinfo] (hello_client_create sample_consts))
   = Some (0x41, [0, 1], [2, 3])"
  by code_simp

end
